theory Spec2Isabelle
  imports Main "HOL-Library.Sublist"
begin

section \<open>Python values, dictionaries and exceptions\<close>

text \<open>
  The tool parameters arrive as a Python dictionary from strings to JSON values. The
  model covers the scalar values \<^verbatim>\<open>None\<close>, booleans, (unbounded) integers and
  strings. The declared tool schemas only use the types "string" and "number"; numbers
  are modelled as Python's unbounded integers (floating-point numbers are left out).
\<close>

datatype pyval = PNone | PBool bool | PInt int | PStr string

text \<open>Values built by the server: scalars, lists and (insertion-ordered) dictionaries.\<close>

datatype pyobj = Atom pyval | PList "pyobj list" | PDict "(string \<times> pyobj) list"

type_synonym params = "string \<rightharpoonup> pyval"

text \<open>
  Exceptions. \<open>ValueError\<close> and \<open>TypeError\<close> carry their message. \<open>LibraryError\<close>
  stands for an exception (a subclass of \<^verbatim>\<open>Exception\<close>) raised inside a method of the
  imported session library; it carries its string rendering.
\<close>

datatype pyerror = ValueError string | TypeError string | LibraryError string

text \<open>\<^verbatim>\<open>str(e)\<close> of an exception.\<close>

fun error_str :: "pyerror \<Rightarrow> string" where
  "error_str (ValueError m) = m"
| "error_str (TypeError m) = m"
| "error_str (LibraryError m) = m"

text \<open>\<^verbatim>\<open>d.get(k, dflt)\<close>\<close>

definition dict_get :: "params \<Rightarrow> string \<Rightarrow> pyval \<Rightarrow> pyval" where
  "dict_get d k dflt = (case d k of None \<Rightarrow> dflt | Some v \<Rightarrow> v)"

fun type_name :: "pyval \<Rightarrow> string" where
  "type_name PNone = ''NoneType''"
| "type_name (PBool b) = ''bool''"
| "type_name (PInt i) = ''int''"
| "type_name (PStr s) = ''str''"

definition squote :: "string \<Rightarrow> string" where
  "squote s = [CHR 0x27] @ s @ [CHR 0x27]"

definition dquote :: "string \<Rightarrow> string" where
  "dquote s = [CHR 0x22] @ s @ [CHR 0x22]"

text \<open>Decimal rendering of integers, as \<^verbatim>\<open>str\<close> and f-strings produce it.\<close>

definition digit_char :: "nat \<Rightarrow> char" where
  "digit_char d = ''0123456789'' ! d"

fun digits :: "nat \<Rightarrow> string" where
  "digits n = (if n < 10 then [digit_char n] else digits (n div 10) @ [digit_char (n mod 10)])"

declare digits.simps [simp del]

definition int_str :: "int \<Rightarrow> string" where
  "int_str i = (if i < 0 then ''-'' @ digits (nat (- i)) else digits (nat i))"

text \<open>\<^verbatim>\<open>str(v)\<close>, which is also what \<^verbatim>\<open>{v}\<close> inside an f-string yields.\<close>

fun py_str :: "pyval \<Rightarrow> string" where
  "py_str PNone = ''None''"
| "py_str (PBool b) = (if b then ''True'' else ''False'')"
| "py_str (PInt i) = int_str i"
| "py_str (PStr s) = s"

text \<open>The integer behind a value of type \<^verbatim>\<open>int\<close> or its subclass \<^verbatim>\<open>bool\<close>.\<close>

fun as_int :: "pyval \<Rightarrow> int option" where
  "as_int (PInt i) = Some i"
| "as_int (PBool b) = Some (if b then 1 else 0)"
| "as_int v = None"

text \<open>The binary operator \<^verbatim>\<open>+\<close> on the modelled values.\<close>

definition py_add :: "pyval \<Rightarrow> pyval \<Rightarrow> pyerror + pyval" where
  "py_add x y =
     (case (as_int x, as_int y) of
        (Some a, Some b) \<Rightarrow> Inr (PInt (a + b))
      | _ \<Rightarrow>
        (case x of
           PStr s \<Rightarrow>
             (case y of
                PStr t \<Rightarrow> Inr (PStr (s @ t))
              | _ \<Rightarrow> Inl (TypeError (''can only concatenate str (not '' @ dquote (type_name y)
                                       @ '') to str'')))
         | _ \<Rightarrow> Inl (TypeError (''unsupported operand type(s) for +: '' @ squote (type_name x)
                                  @ '' and '' @ squote (type_name y)))))"

text \<open>\<^verbatim>\<open>range(n)\<close>, as the list of its elements.\<close>

definition py_range :: "pyval \<Rightarrow> pyerror + int list" where
  "py_range v =
     (case as_int v of
        Some n \<Rightarrow> Inr (map int [0..<nat n])
      | None \<Rightarrow> Inl (TypeError (squote (type_name v) @ '' object cannot be interpreted as an integer'')))"

section \<open>Tool descriptors\<close>

record ToolParameterDefinition =
  pd_name :: string
  pd_type :: string
  pd_description :: string
  pd_required :: bool

record ToolResultDefinition =
  rd_type :: string
  rd_description :: string

record ToolDefinition =
  td_name :: string
  td_description :: string
  td_parameters :: "ToolParameterDefinition list"
  td_result :: ToolResultDefinition

definition TOOLS :: "ToolDefinition list" where
  "TOOLS =
     [ \<lparr> td_name = ''echo'',
         td_description = ''Echoes back the message'',
         td_parameters =
           [ \<lparr> pd_name = ''message'', pd_type = ''string'',
               pd_description = ''The message to echo'', pd_required = True \<rparr> ],
         td_result = \<lparr> rd_type = ''string'', rd_description = ''The echoed message'' \<rparr> \<rparr>,
       \<lparr> td_name = ''add'',
         td_description = ''Adds two numbers'',
         td_parameters =
           [ \<lparr> pd_name = ''a'', pd_type = ''number'',
               pd_description = ''First number'', pd_required = True \<rparr>,
             \<lparr> pd_name = ''b'', pd_type = ''number'',
               pd_description = ''Second number'', pd_required = True \<rparr> ],
         td_result = \<lparr> rd_type = ''number'', rd_description = ''The sum of a and b'' \<rparr> \<rparr>,
       \<lparr> td_name = ''mcp_create_text_to_image_task'',
         td_description =
           ''Creates a text to image generation task and sends progress notifications'',
         td_parameters =
           [ \<lparr> pd_name = ''prompt'', pd_type = ''string'',
               pd_description = ''The prompt for image generation'', pd_required = True \<rparr>,
             \<lparr> pd_name = ''width'', pd_type = ''number'',
               pd_description = ''Width of the image'', pd_required = True \<rparr>,
             \<lparr> pd_name = ''height'', pd_type = ''number'',
               pd_description = ''Height of the image'', pd_required = True \<rparr>,
             \<lparr> pd_name = ''num_images'', pd_type = ''number'',
               pd_description = ''Number of images to generate'', pd_required = True \<rparr> ],
         td_result = \<lparr> rd_type = ''object'',
                       rd_description = ''The result of the image generation task'' \<rparr> \<rparr> ]"

section \<open>The session library as seen by the server\<close>

text \<open>
  The server talks to the imported library through method calls on a tool-call object
  and on a session object. Every such call is recorded, in order, in a trace. A library
  method either returns normally (\<open>None\<close>) or raises an exception with string rendering
  \<open>m\<close> (\<open>Some m\<close>); which of the two is part of the object handed to the server. A
  tool-call object need not have the attribute \<^verbatim>\<open>send_notification\<close>. The argument
  \<^verbatim>\<open>tool_call\<close> of \<open>handle_tool_call\<close> is \<open>None\<close> or such an object, which is truthy.
  The tool calls of a session are the finite list of the calls it delivers, and
  \<^verbatim>\<open>asyncio.sleep\<close> returns normally (cancellation is not modelled).
\<close>

datatype event =
    SetTools "ToolDefinition list"
  | Initialize
  | Sleep nat
  | SendNotification pyobj
  | ReturnSuccess pyobj
  | ReturnError string

record tool_call =
  tc_name :: string
  tc_parameters :: params
  tc_send_notification :: "(pyobj \<Rightarrow> string option) option"
  tc_return_success :: "pyobj \<Rightarrow> string option"
  tc_return_error :: "string \<Rightarrow> string option"

record session =
  ss_set_tools :: "ToolDefinition list \<Rightarrow> string option"
  ss_initialize :: "string option"
  ss_tool_calls :: "tool_call list"

text \<open>
  The state of the server process: the module-level list \<open>TOOLS\<close> and the trace of the
  library calls made so far.
\<close>

record state =
  tools :: "ToolDefinition list"
  trace :: "event list"

definition init_state :: state where
  "init_state = \<lparr> tools = TOOLS, trace = [] \<rparr>"

text \<open>Awaiting a library call: the call is recorded, then it returns or raises.\<close>

definition await :: "event \<Rightarrow> string option \<Rightarrow> state \<Rightarrow> (pyerror + unit) \<times> state" where
  "await ev outcome st =
     ((case outcome of None \<Rightarrow> Inr () | Some m \<Rightarrow> Inl (LibraryError m)),
      st\<lparr>trace := trace st @ [ev]\<rparr>)"

section \<open>handle_tool_call\<close>

definition starting_notification :: "pyval \<Rightarrow> pyobj" where
  "starting_notification prompt =
     PDict [(''type'', Atom (PStr ''status'')),
            (''status'', Atom (PStr ''starting'')),
            (''message'', Atom (PStr (''Starting image generation for: '' @ py_str prompt)))]"

definition progress_notification :: "int \<Rightarrow> pyobj" where
  "progress_notification progress =
     PDict [(''type'', Atom (PStr ''progress'')),
            (''progress'', Atom (PInt progress)),
            (''message'', Atom (PStr (''Generating image: '' @ py_str (PInt progress)
                                       @ ''% complete'')))]"

definition completed_notification :: pyobj where
  "completed_notification =
     PDict [(''type'', Atom (PStr ''status'')),
            (''status'', Atom (PStr ''completed'')),
            (''message'', Atom (PStr ''Image generation complete!''))]"

text \<open>The loop \<^verbatim>\<open>for i in range(1, 5)\<close>: sleep, then send the progress notification.\<close>

fun progress_loop :: "(pyobj \<Rightarrow> string option) \<Rightarrow> int list \<Rightarrow> state \<Rightarrow> (pyerror + unit) \<times> state"
where
  "progress_loop send [] st = (Inr (), st)"
| "progress_loop send (i # rest) st =
     (case await (Sleep 1) None st of
        (Inl e, st1) \<Rightarrow> (Inl e, st1)
      | (Inr u, st1) \<Rightarrow>
          (let progress = i * 25;
               n = progress_notification progress
           in case await (SendNotification n) (send n) st1 of
                (Inl e, st2) \<Rightarrow> (Inl e, st2)
              | (Inr u', st2) \<Rightarrow> progress_loop send rest st2))"

text \<open>
  The block guarded by \<^verbatim>\<open>if tool_call and hasattr(tool_call, "send_notification")\<close>.
\<close>

definition notify_block :: "tool_call option \<Rightarrow> pyval \<Rightarrow> state \<Rightarrow> (pyerror + unit) \<times> state" where
  "notify_block tool_call prompt st =
     (case tool_call of
        None \<Rightarrow> (Inr (), st)
      | Some tc \<Rightarrow>
          (case tc_send_notification tc of
             None \<Rightarrow> (Inr (), st)
           | Some send \<Rightarrow>
               (let n0 = starting_notification prompt
                in case await (SendNotification n0) (send n0) st of
                     (Inl e, st1) \<Rightarrow> (Inl e, st1)
                   | (Inr u, st1) \<Rightarrow>
                       (case progress_loop send [1, 2, 3, 4] st1 of
                          (Inl e, st2) \<Rightarrow> (Inl e, st2)
                        | (Inr u', st2) \<Rightarrow>
                            await (SendNotification completed_notification)
                                  (send completed_notification) st2))))"

definition image_entry :: "pyval \<Rightarrow> pyval \<Rightarrow> int \<Rightarrow> pyobj" where
  "image_entry width height i =
     PDict [(''url'', Atom (PStr (''https://example.com/images/generated_'' @ py_str (PInt i)
                                   @ ''.png''))),
            (''width'', Atom width),
            (''height'', Atom height)]"

definition image_result :: "pyval \<Rightarrow> pyval \<Rightarrow> pyval \<Rightarrow> int list \<Rightarrow> pyobj" where
  "image_result prompt width height idxs =
     PDict [(''images'', PList (map (image_entry width height) idxs)),
            (''prompt'', Atom prompt)]"

definition handle_tool_call ::
  "string \<Rightarrow> params \<Rightarrow> tool_call option \<Rightarrow> state \<Rightarrow> (pyerror + pyobj) \<times> state" where
  "handle_tool_call tool_name params tool_call st =
     (if tool_name = ''echo'' then
        (Inr (Atom (dict_get params ''message'' (PStr ''''))), st)
      else if tool_name = ''add'' then
        (case py_add (dict_get params ''a'' (PInt 0)) (dict_get params ''b'' (PInt 0)) of
           Inl e \<Rightarrow> (Inl e, st)
         | Inr v \<Rightarrow> (Inr (Atom v), st))
      else if tool_name = ''mcp_create_text_to_image_task'' then
        (let prompt = dict_get params ''prompt'' (PStr '''');
             width = dict_get params ''width'' (PInt 512);
             height = dict_get params ''height'' (PInt 512);
             num_images = dict_get params ''num_images'' (PInt 1)
         in case notify_block tool_call prompt st of
              (Inl e, st1) \<Rightarrow> (Inl e, st1)
            | (Inr u, st1) \<Rightarrow>
                (case py_range num_images of
                   Inl e \<Rightarrow> (Inl e, st1)
                 | Inr idxs \<Rightarrow> (Inr (image_result prompt width height idxs), st1)))
      else (Inl (ValueError (''Unknown tool: '' @ tool_name)), st))"

section \<open>handle_session\<close>

text \<open>
  The body of the \<^verbatim>\<open>try\<close> block: the tool is run and, when it returns, its result is
  passed to \<^verbatim>\<open>return_success\<close>.
\<close>

definition try_body :: "tool_call \<Rightarrow> state \<Rightarrow> (pyerror + unit) \<times> state" where
  "try_body tc st =
     (case handle_tool_call (tc_name tc) (tc_parameters tc) (Some tc) st of
        (Inl e, st1) \<Rightarrow> (Inl e, st1)
      | (Inr result, st1) \<Rightarrow> await (ReturnSuccess result) (tc_return_success tc result) st1)"

text \<open>One iteration of the loop: the \<^verbatim>\<open>try\<close> block and its \<^verbatim>\<open>except Exception\<close> handler.\<close>

definition process_tool_call :: "tool_call \<Rightarrow> state \<Rightarrow> (pyerror + unit) \<times> state" where
  "process_tool_call tc st =
     (case try_body tc st of
        (Inr u, st1) \<Rightarrow> (Inr (), st1)
      | (Inl e, st1) \<Rightarrow> await (ReturnError (error_str e)) (tc_return_error tc (error_str e)) st1)"

text \<open>
  The loop over the incoming tool calls. An exception that leaves an iteration leaves
  the loop.
\<close>

fun tool_call_loop :: "tool_call list \<Rightarrow> state \<Rightarrow> (pyerror + unit) \<times> state" where
  "tool_call_loop [] st = (Inr (), st)"
| "tool_call_loop (tc # rest) st =
     (case process_tool_call tc st of
        (Inl e, st1) \<Rightarrow> (Inl e, st1)
      | (Inr u, st1) \<Rightarrow> tool_call_loop rest st1)"

definition handle_session :: "session \<Rightarrow> state \<Rightarrow> (pyerror + unit) \<times> state" where
  "handle_session sess st =
     (case await (SetTools (tools st)) (ss_set_tools sess (tools st)) st of
        (Inl e, st1) \<Rightarrow> (Inl e, st1)
      | (Inr u, st1) \<Rightarrow>
          (case await Initialize (ss_initialize sess) st1 of
             (Inl e, st2) \<Rightarrow> (Inl e, st2)
           | (Inr u', st2) \<Rightarrow> tool_call_loop (ss_tool_calls sess) st2))"

section \<open>Notions used to state the properties\<close>

text \<open>The library calls made between two states of the same run.\<close>

definition emitted :: "state \<Rightarrow> state \<Rightarrow> event list" where
  "emitted st st' = drop (length (trace st)) (trace st')"




text \<open>The six notifications of a complete image task, and the calls that carry them.\<close>

definition expected_notifications :: "pyval \<Rightarrow> pyobj list" where
  "expected_notifications prompt =
     [starting_notification prompt,
      progress_notification 25, progress_notification 50,
      progress_notification 75, progress_notification 100,
      completed_notification]"

definition image_task_events :: "pyval \<Rightarrow> event list" where
  "image_task_events prompt =
     [SendNotification (starting_notification prompt),
      Sleep 1, SendNotification (progress_notification 25),
      Sleep 1, SendNotification (progress_notification 50),
      Sleep 1, SendNotification (progress_notification 75),
      Sleep 1, SendNotification (progress_notification 100),
      SendNotification completed_notification]"

text \<open>
  The notification channel is absent, or every call of \<^verbatim>\<open>send_notification\<close> returns
  normally.
\<close>

definition sends_return_normally :: "tool_call option \<Rightarrow> bool" where
  "sends_return_normally tool_call =
     (case tool_call of
        None \<Rightarrow> True
      | Some tc \<Rightarrow>
          (case tc_send_notification tc of
             None \<Rightarrow> True
           | Some send \<Rightarrow> (\<forall>n. send n = None)))"

text \<open>
  A computation is stateless when its result and the library calls it makes are the same
  from every state, and all it does to the state is to append these calls to the trace.
\<close>

definition stateless :: "(state \<Rightarrow> 'a \<times> state) \<Rightarrow> bool" where
  "stateless f = (\<exists>r evs. \<forall>st. f st = (r, st\<lparr>trace := trace st @ evs\<rparr>))"

text \<open>
  A value has the type a tool schema declares: "string" is a Python string and "number"
  a (modelled) number.
\<close>

definition has_type :: "string \<Rightarrow> pyval \<Rightarrow> bool" where
  "has_type ty v =
     (case v of
        PStr s \<Rightarrow> ty = ''string''
      | PInt i \<Rightarrow> ty = ''number''
      | _ \<Rightarrow> False)"

text \<open>
  Every declared parameter that is present has its declared type; any of them may be
  missing.
\<close>

fun typed_if_present :: "string \<Rightarrow> pyval option \<Rightarrow> bool" where
  "typed_if_present ty None = True"
| "typed_if_present ty (Some v) = has_type ty v"

definition well_typed_where_present :: "ToolDefinition \<Rightarrow> params \<Rightarrow> bool" where
  "well_typed_where_present tool params =
     list_all (\<lambda>p. typed_if_present (pd_type p) (params (pd_name p))) (td_parameters tool)"

section \<open>The echo tool\<close>

text \<open>
  C1. For every parameter dictionary that maps the key "message" to a string \<open>m\<close>,
  \<open>handle_tool_call\<close> with the tool name "echo" returns exactly \<open>m\<close>, whatever the
  tool-call object and the state are, and the state is left as it was.
\<close>

theorem echo_returns_message:
  assumes "params ''message'' = Some (PStr m)"
  shows "handle_tool_call ''echo'' params tool_call st = (Inr (Atom (PStr m)), st)"
  using assms by (simp add: handle_tool_call_def dict_get_def)

theorem echo_returns_message_witness:
  "[''message'' \<mapsto> PStr ''hi''] ''message'' = Some (PStr ''hi'') \<and>
   handle_tool_call ''echo'' [''message'' \<mapsto> PStr ''hi''] None init_state
     = (Inr (Atom (PStr ''hi'')), init_state)"
  using echo_returns_message [of "[''message'' \<mapsto> PStr ''hi'']" "''hi''" None init_state]
  by simp

section \<open>The add tool\<close>



section \<open>Where exceptions come from\<close>

lemma await_error: "await ev outcome st = (Inl e, st') \<Longrightarrow> \<exists>m. e = LibraryError m"
  by (auto simp: await_def split: option.splits)

lemma progress_loop_error:
  "progress_loop send idxs st = (Inl e, st') \<Longrightarrow> \<exists>m. e = LibraryError m"
proof (induction idxs arbitrary: st)
  case Nil
  then show ?case by simp
next
  case (Cons i rest)
  then show ?case
    by (auto simp: Let_def split: prod.splits sum.splits dest: await_error)
qed

lemma notify_block_error:
  assumes "notify_block tool_call prompt st = (Inl e, st')"
  shows "\<exists>m. e = LibraryError m"
  using assms unfolding notify_block_def Let_def
  by (auto simp del: progress_loop.simps split: option.splits prod.splits sum.splits
           dest: await_error progress_loop_error)

lemma py_add_error: "py_add x y = Inl e \<Longrightarrow> \<exists>m. e = TypeError m"
  by (auto simp: py_add_def split: option.splits pyval.splits)

lemma py_range_error: "py_range x = Inl e \<Longrightarrow> \<exists>m. e = TypeError m"
  by (auto simp: py_range_def split: option.splits)

lemma tool_names:
  "set (map td_name TOOLS) = {''echo'', ''add'', ''mcp_create_text_to_image_task''}"
  by (auto simp: TOOLS_def)

lemma known_tool_no_value_error:
  assumes "tool_name \<in> {''echo'', ''add'', ''mcp_create_text_to_image_task''}"
  shows "fst (handle_tool_call tool_name params tool_call st) \<noteq> Inl (ValueError m)"
proof
  assume h: "fst (handle_tool_call tool_name params tool_call st) = Inl (ValueError m)"
  from assms consider "tool_name = ''echo''" | "tool_name = ''add''"
    | "tool_name = ''mcp_create_text_to_image_task''" by auto
  then show False
  proof cases
    case 1 with h show False by (simp add: handle_tool_call_def)
  next
    case 2 with h show False
      by (auto simp: handle_tool_call_def split: sum.splits dest: py_add_error)
  next
    case 3 with h show False
      by (auto simp: handle_tool_call_def Let_def split: sum.splits prod.splits
               dest: py_range_error notify_block_error)
  qed
qed

lemma unknown_tool_value_error:
  assumes "tool_name \<notin> {''echo'', ''add'', ''mcp_create_text_to_image_task''}"
  shows "handle_tool_call tool_name params tool_call st
           = (Inl (ValueError (''Unknown tool: '' @ tool_name)), st)"
  using assms by (simp add: handle_tool_call_def)

section \<open>Unknown tool names\<close>

text \<open>
  C3. \<open>handle_tool_call\<close> raises a \<open>ValueError\<close> if and only if the given tool name is
  not one of the names declared in \<open>TOOLS\<close>, that is, not one of "echo", "add" and
  "mcp_create_text_to_image_task"; the message of that error is "Unknown tool: " followed
  by the name, and no state is touched. Every declared name is dispatched to its
  computation and never ends in a \<open>ValueError\<close>.
\<close>

theorem unknown_tool_iff:
  "((\<exists>m. fst (handle_tool_call tool_name params tool_call st) = Inl (ValueError m))
      = (tool_name \<notin> set (map td_name TOOLS))) \<and>
   (tool_name \<notin> set (map td_name TOOLS) \<longrightarrow>
      handle_tool_call tool_name params tool_call st
        = (Inl (ValueError (''Unknown tool: '' @ tool_name)), st)) \<and>
   set (map td_name TOOLS) = {''echo'', ''add'', ''mcp_create_text_to_image_task''}"
proof (cases "tool_name \<in> {''echo'', ''add'', ''mcp_create_text_to_image_task''}")
  case True
  then have "\<not> (\<exists>m. fst (handle_tool_call tool_name params tool_call st) = Inl (ValueError m))"
    using known_tool_no_value_error by blast
  with True show ?thesis unfolding tool_names by blast
next
  case False
  then have "handle_tool_call tool_name params tool_call st
               = (Inl (ValueError (''Unknown tool: '' @ tool_name)), st)"
    by (rule unknown_tool_value_error)
  with False show ?thesis unfolding tool_names by simp
qed

theorem unknown_tool_iff_witness:
  "''nope'' \<notin> set (map td_name TOOLS) \<and>
   handle_tool_call ''nope'' Map.empty None init_state
     = (Inl (ValueError ''Unknown tool: nope''), init_state) \<and>
   ''add'' \<in> set (map td_name TOOLS) \<and>
   \<not> (\<exists>m. fst (handle_tool_call ''add'' Map.empty None init_state) = Inl (ValueError m))"
proof -
  have n: "''nope'' \<notin> set (map td_name TOOLS)" by (simp add: TOOLS_def)
  have a: "''add'' \<in> set (map td_name TOOLS)" by (simp add: TOOLS_def)
  from n unknown_tool_iff [of "''nope''" Map.empty None init_state]
  have 1: "handle_tool_call ''nope'' Map.empty None init_state
             = (Inl (ValueError ''Unknown tool: nope''), init_state)" by simp
  from a unknown_tool_iff [of "''add''" Map.empty None init_state]
  have 2: "\<not> (\<exists>m. fst (handle_tool_call ''add'' Map.empty None init_state) = Inl (ValueError m))"
    by blast
  from n a 1 2 show ?thesis by blast
qed

section \<open>The notification block of the image task\<close>

lemma notify_block_sends_ok:
  assumes "tc_send_notification tc = Some send"
      and "\<forall>n \<in> set (expected_notifications prompt). send n = None"
  shows "notify_block (Some tc) prompt st
           = (Inr (), st\<lparr>trace := trace st @ image_task_events prompt\<rparr>)"
  using assms
  by (simp add: notify_block_def expected_notifications_def image_task_events_def await_def)


lemma notify_block_silent:
  assumes "tool_call = None \<or> (\<exists>tc. tool_call = Some tc \<and> tc_send_notification tc = None)"
  shows "notify_block tool_call prompt st = (Inr (), st)"
  using assms by (auto simp: notify_block_def)


lemma image_task_unfold:
  "handle_tool_call ''mcp_create_text_to_image_task'' params tool_call st =
     (case notify_block tool_call (dict_get params ''prompt'' (PStr '''')) st of
        (Inl e, st1) \<Rightarrow> (Inl e, st1)
      | (Inr u, st1) \<Rightarrow>
          (case py_range (dict_get params ''num_images'' (PInt 1)) of
             Inl e \<Rightarrow> (Inl e, st1)
           | Inr idxs \<Rightarrow>
               (Inr (image_result (dict_get params ''prompt'' (PStr ''''))
                       (dict_get params ''width'' (PInt 512))
                       (dict_get params ''height'' (PInt 512)) idxs), st1)))"
  by (simp add: handle_tool_call_def Let_def)

lemma image_task_trace:
  "snd (handle_tool_call ''mcp_create_text_to_image_task'' params tool_call st)
     = snd (notify_block tool_call (dict_get params ''prompt'' (PStr '''')) st)"
  by (simp add: image_task_unfold split: prod.splits sum.splits)






lemma notify_block_normal:
  assumes "sends_return_normally tool_call"
  shows "\<exists>st'. notify_block tool_call prompt st = (Inr (), st')"
proof (cases tool_call)
  case None
  then show ?thesis by (simp add: notify_block_def)
next
  case (Some tc)
  show ?thesis
  proof (cases "tc_send_notification tc")
    case None
    with Some show ?thesis by (simp add: notify_block_def)
  next
    case (Some send)
    with assms \<open>tool_call = Some tc\<close> have "\<forall>n \<in> set (expected_notifications prompt). send n = None"
      by (simp add: sends_return_normally_def)
    from notify_block_sends_ok [OF Some this] \<open>tool_call = Some tc\<close> show ?thesis by simp
  qed
qed

lemma py_range_nat: "py_range (PInt (int n)) = Inr (map int [0..<n])"
  by (simp add: py_range_def)

lemma image_task_value:
  assumes "fst (handle_tool_call ''mcp_create_text_to_image_task'' params tool_call st) = Inr v"
  shows "\<exists>idxs. py_range (dict_get params ''num_images'' (PInt 1)) = Inr idxs \<and>
           v = image_result (dict_get params ''prompt'' (PStr ''''))
                 (dict_get params ''width'' (PInt 512))
                 (dict_get params ''height'' (PInt 512)) idxs"
  using assms by (auto simp: image_task_unfold split: prod.splits sum.splits)

lemma image_task_normal:
  assumes "sends_return_normally tool_call"
  shows "fst (handle_tool_call ''mcp_create_text_to_image_task'' params tool_call st) =
           (case py_range (dict_get params ''num_images'' (PInt 1)) of
              Inl e \<Rightarrow> Inl e
            | Inr idxs \<Rightarrow>
                Inr (image_result (dict_get params ''prompt'' (PStr ''''))
                       (dict_get params ''width'' (PInt 512))
                       (dict_get params ''height'' (PInt 512)) idxs))"
proof -
  from notify_block_normal [OF assms] obtain st' where
    "notify_block tool_call (dict_get params ''prompt'' (PStr '''')) st = (Inr (), st')" ..
  then show ?thesis by (simp add: image_task_unfold split: sum.splits)
qed

section \<open>The result of the image task\<close>

text \<open>
  C9. For every call of \<open>handle_tool_call\<close> with the tool name
  "mcp_create_text_to_image_task" and \<^verbatim>\<open>num_images\<close> a natural number \<open>n\<close>, the returned
  object has an "images" list of exactly \<open>n\<close> entries, where entry \<open>i\<close> (from 0 to
  \<open>n - 1\<close>) has the url "https://example.com/images/generated_i.png" and the width and
  height of the parameters, and a "prompt" field equal to the prompt parameter. Such an
  object is returned whenever the notification channel is absent or its sends return
  normally; \<open>n = 0\<close> gives an empty list, not an error.
\<close>

theorem image_task_result:
  assumes "params ''num_images'' = Some (PInt (int n))"
  shows
    "(sends_return_normally tool_call \<longrightarrow>
        fst (handle_tool_call ''mcp_create_text_to_image_task'' params tool_call st) =
          Inr (PDict
            [(''images'', PList (map (\<lambda>i.
                PDict [(''url'', Atom (PStr (''https://example.com/images/generated_''
                                             @ int_str (int i) @ ''.png''))),
                       (''width'', Atom (dict_get params ''width'' (PInt 512))),
                       (''height'', Atom (dict_get params ''height'' (PInt 512)))]) [0..<n])),
             (''prompt'', Atom (dict_get params ''prompt'' (PStr '''')))])) \<and>
     (\<forall>v. fst (handle_tool_call ''mcp_create_text_to_image_task'' params tool_call st) = Inr v \<longrightarrow>
        v = PDict
            [(''images'', PList (map (\<lambda>i.
                PDict [(''url'', Atom (PStr (''https://example.com/images/generated_''
                                             @ int_str (int i) @ ''.png''))),
                       (''width'', Atom (dict_get params ''width'' (PInt 512))),
                       (''height'', Atom (dict_get params ''height'' (PInt 512)))]) [0..<n])),
             (''prompt'', Atom (dict_get params ''prompt'' (PStr '''')))])"
proof -
  have num: "dict_get params ''num_images'' (PInt 1) = PInt (int n)"
    using assms by (simp add: dict_get_def)
  show ?thesis
  proof (intro conjI impI allI)
    assume "sends_return_normally tool_call"
    from image_task_normal [OF this, of params st] show
      "fst (handle_tool_call ''mcp_create_text_to_image_task'' params tool_call st) =
          Inr (PDict
            [(''images'', PList (map (\<lambda>i.
                PDict [(''url'', Atom (PStr (''https://example.com/images/generated_''
                                             @ int_str (int i) @ ''.png''))),
                       (''width'', Atom (dict_get params ''width'' (PInt 512))),
                       (''height'', Atom (dict_get params ''height'' (PInt 512)))]) [0..<n])),
             (''prompt'', Atom (dict_get params ''prompt'' (PStr '''')))])"
      by (simp add: num py_range_nat image_result_def image_entry_def comp_def)
  next
    fix v
    assume "fst (handle_tool_call ''mcp_create_text_to_image_task'' params tool_call st) = Inr v"
    from image_task_value [OF this] show
      "v = PDict
            [(''images'', PList (map (\<lambda>i.
                PDict [(''url'', Atom (PStr (''https://example.com/images/generated_''
                                             @ int_str (int i) @ ''.png''))),
                       (''width'', Atom (dict_get params ''width'' (PInt 512))),
                       (''height'', Atom (dict_get params ''height'' (PInt 512)))]) [0..<n])),
             (''prompt'', Atom (dict_get params ''prompt'' (PStr '''')))]"
      by (auto simp: num py_range_nat image_result_def image_entry_def comp_def)
  qed
qed

lemma int_str_small: "int_str 0 = ''0''" "int_str 1 = ''1''"
  by (simp_all add: int_str_def digits.simps digit_char_def)

theorem image_task_result_witness:
  "fst (handle_tool_call ''mcp_create_text_to_image_task''
      [''prompt'' \<mapsto> PStr ''a cat'', ''width'' \<mapsto> PInt 640, ''height'' \<mapsto> PInt 480,
       ''num_images'' \<mapsto> PInt 2] None init_state)
     = Inr (PDict
          [(''images'', PList
              [PDict [(''url'', Atom (PStr ''https://example.com/images/generated_0.png'')),
                      (''width'', Atom (PInt 640)), (''height'', Atom (PInt 480))],
               PDict [(''url'', Atom (PStr ''https://example.com/images/generated_1.png'')),
                      (''width'', Atom (PInt 640)), (''height'', Atom (PInt 480))]]),
           (''prompt'', Atom (PStr ''a cat''))]) \<and>
   snd (handle_tool_call ''mcp_create_text_to_image_task''
      [''prompt'' \<mapsto> PStr ''a cat'', ''width'' \<mapsto> PInt 640, ''height'' \<mapsto> PInt 480,
       ''num_images'' \<mapsto> PInt 2] None init_state) = init_state \<and>
   fst (handle_tool_call ''mcp_create_text_to_image_task'' [''num_images'' \<mapsto> PInt 0] None init_state)
     = Inr (PDict [(''images'', PList []), (''prompt'', Atom (PStr ''''))])"
proof -
  let ?p = "[''prompt'' \<mapsto> PStr ''a cat'', ''width'' \<mapsto> PInt 640, ''height'' \<mapsto> PInt 480,
             ''num_images'' \<mapsto> PInt 2]"
  let ?q = "[''num_images'' \<mapsto> PInt 0]"
  have ok: "sends_return_normally None" by (simp add: sends_return_normally_def)
  have u: "[0..<2] = [0, Suc 0]" by code_simp
  have two: "?p ''num_images'' = Some (PInt (int 2))" by simp
  have zero: "?q ''num_images'' = Some (PInt (int 0))" by simp
  note r2 = image_task_result [of ?p 2 None init_state, OF two, THEN conjunct1, rule_format, OF ok]
  note r0 = image_task_result [of ?q 0 None init_state, OF zero, THEN conjunct1, rule_format, OF ok]
  have st: "snd (handle_tool_call ''mcp_create_text_to_image_task'' ?p None init_state) = init_state"
    by (simp add: image_task_trace notify_block_def)
  have a: "fst (handle_tool_call ''mcp_create_text_to_image_task'' ?p None init_state)
     = Inr (PDict
          [(''images'', PList
              [PDict [(''url'', Atom (PStr ''https://example.com/images/generated_0.png'')),
                      (''width'', Atom (PInt 640)), (''height'', Atom (PInt 480))],
               PDict [(''url'', Atom (PStr ''https://example.com/images/generated_1.png'')),
                      (''width'', Atom (PInt 640)), (''height'', Atom (PInt 480))]]),
           (''prompt'', Atom (PStr ''a cat''))])"
    by (simp only: r2 u) (simp add: dict_get_def int_str_small)
  have b: "fst (handle_tool_call ''mcp_create_text_to_image_task'' ?q None init_state)
     = Inr (PDict [(''images'', PList []), (''prompt'', Atom (PStr ''''))])"
    by (simp only: r0) (simp add: dict_get_def)
  from a st b show ?thesis by (intro conjI)
qed

text \<open>
  C10. The value returned by \<open>handle_tool_call\<close> for "mcp_create_text_to_image_task"
  does not depend on the notification channel: for every parameter dictionary, any two
  runs that return a value return the same value, whatever their tool-call objects are;
  and a run whose sends return normally has the very outcome of the run without a
  tool-call object.
\<close>

theorem image_task_independent_of_channel:
  "(fst (handle_tool_call ''mcp_create_text_to_image_task'' params tool_call st) = Inr v \<and>
    fst (handle_tool_call ''mcp_create_text_to_image_task'' params tool_call' st') = Inr v'
      \<longrightarrow> v = v') \<and>
   (sends_return_normally tool_call \<longrightarrow>
      fst (handle_tool_call ''mcp_create_text_to_image_task'' params tool_call st)
        = fst (handle_tool_call ''mcp_create_text_to_image_task'' params None st'))"
proof (intro conjI impI)
  assume "fst (handle_tool_call ''mcp_create_text_to_image_task'' params tool_call st) = Inr v \<and>
    fst (handle_tool_call ''mcp_create_text_to_image_task'' params tool_call' st') = Inr v'"
  then show "v = v'"
    by (auto dest!: image_task_value)
next
  assume ok: "sends_return_normally tool_call"
  have "sends_return_normally None" by (simp add: sends_return_normally_def)
  from image_task_normal [OF ok, of params st] image_task_normal [OF this, of params st']
  show "fst (handle_tool_call ''mcp_create_text_to_image_task'' params tool_call st)
        = fst (handle_tool_call ''mcp_create_text_to_image_task'' params None st')"
    by simp
qed


theorem image_task_independent_of_channel_witness:
  "sends_return_normally
     (Some \<lparr> tc_name = ''mcp_create_text_to_image_task'',
              tc_parameters = [''prompt'' \<mapsto> PStr ''a cat''],
              tc_send_notification = Some (\<lambda>n. None),
              tc_return_success = (\<lambda>r. None),
              tc_return_error = (\<lambda>m. None) \<rparr>) \<and>
   fst (handle_tool_call ''mcp_create_text_to_image_task'' [''prompt'' \<mapsto> PStr ''a cat'']
      (Some \<lparr> tc_name = ''mcp_create_text_to_image_task'',
               tc_parameters = [''prompt'' \<mapsto> PStr ''a cat''],
               tc_send_notification = Some (\<lambda>n. None),
               tc_return_success = (\<lambda>r. None),
               tc_return_error = (\<lambda>m. None) \<rparr>)
      init_state)
     = fst (handle_tool_call ''mcp_create_text_to_image_task'' [''prompt'' \<mapsto> PStr ''a cat'']
              None init_state) \<and>
   fst (handle_tool_call ''mcp_create_text_to_image_task'' [''prompt'' \<mapsto> PStr ''a cat'']
              None init_state)
     = Inr (PDict
          [(''images'', PList
              [PDict [(''url'', Atom (PStr ''https://example.com/images/generated_0.png'')),
                      (''width'', Atom (PInt 512)), (''height'', Atom (PInt 512))]]),
           (''prompt'', Atom (PStr ''a cat''))])"
proof -
  let ?tc = "\<lparr> tc_name = ''mcp_create_text_to_image_task'',
               tc_parameters = [''prompt'' \<mapsto> PStr ''a cat''],
               tc_send_notification = Some (\<lambda>n. None),
               tc_return_success = (\<lambda>r. None),
               tc_return_error = (\<lambda>m. None) \<rparr>"
  let ?p = "[''prompt'' \<mapsto> PStr ''a cat'']"
  have ok: "sends_return_normally (Some ?tc)" by (simp add: sends_return_normally_def)
  note eq = image_task_independent_of_channel
              [of ?p "Some ?tc" init_state undefined None init_state undefined,
               THEN conjunct2, rule_format, OF ok]
  have u: "[0..<nat 1] = [0]" by simp
  have val: "fst (handle_tool_call ''mcp_create_text_to_image_task'' ?p None init_state)
     = Inr (PDict
          [(''images'', PList
              [PDict [(''url'', Atom (PStr ''https://example.com/images/generated_0.png'')),
                      (''width'', Atom (PInt 512)), (''height'', Atom (PInt 512))]]),
           (''prompt'', Atom (PStr ''a cat''))])"
    by (simp add: image_task_unfold notify_block_def dict_get_def py_range_def image_result_def
          image_entry_def int_str_small)
  from ok eq val show ?thesis by (intro conjI)
qed

section \<open>Statelessness of the dispatch\<close>

lemma stateless_await: "stateless (await ev outcome)"
  unfolding stateless_def await_def by blast

lemma stateless_return: "stateless (\<lambda>st. (r, st))"
  unfolding stateless_def
  by (rule exI [of _ r], rule exI [of _ "[]"]) simp

lemma stateless_seq:
  assumes "stateless f" and "\<And>u. stateless (g u)"
  shows "stateless (\<lambda>st. case f st of (Inl e, st1) \<Rightarrow> (Inl e, st1) | (Inr u, st1) \<Rightarrow> g u st1)"
proof -
  from assms(1) obtain r evs where f: "\<And>st. f st = (r, st\<lparr>trace := trace st @ evs\<rparr>)"
    unfolding stateless_def by blast
  show ?thesis
  proof (cases r)
    case (Inl e)
    with f show ?thesis unfolding stateless_def
      by (intro exI [of _ "Inl e"] exI [of _ evs]) simp
  next
    case (Inr u)
    from assms(2) [of u] obtain r' evs' where
      g: "\<And>st. g u st = (r', st\<lparr>trace := trace st @ evs'\<rparr>)"
      unfolding stateless_def by blast
    from f g Inr show ?thesis unfolding stateless_def
      by (intro exI [of _ r'] exI [of _ "evs @ evs'"]) simp
  qed
qed

lemma stateless_progress_loop: "stateless (progress_loop send idxs)"
proof (induction idxs)
  case Nil
  have "progress_loop send [] = (\<lambda>st. (Inr (), st))" by (rule ext) simp
  then show ?case by (simp add: stateless_return)
next
  case (Cons i rest)
  let ?n = "progress_notification (i * 25)"
  let ?inner = "\<lambda>st1. case await (SendNotification ?n) (send ?n) st1 of
                        (Inl e, st2) \<Rightarrow> (Inl e, st2)
                      | (Inr u', st2) \<Rightarrow> progress_loop send rest st2"
  have eq: "progress_loop send (i # rest) =
          (\<lambda>st. case await (Sleep 1) None st of
                   (Inl e, st1) \<Rightarrow> (Inl e, st1)
                 | (Inr u, st1) \<Rightarrow> ?inner st1)"
    by (rule ext) (simp add: Let_def split: prod.splits sum.splits)
  have inner: "stateless ?inner"
    by (rule stateless_seq [OF stateless_await, where g = "\<lambda>u'. progress_loop send rest"])
       (rule Cons.IH)
  show ?case unfolding eq
    by (rule stateless_seq [OF stateless_await, where g = "\<lambda>u. ?inner"]) (rule inner)
qed

lemma stateless_notify_block: "stateless (notify_block tool_call prompt)"
proof (cases tool_call)
  case None
  then have "notify_block tool_call prompt = (\<lambda>st. (Inr (), st))"
    by (intro ext) (simp add: notify_block_def)
  then show ?thesis by (simp add: stateless_return)
next
  case (Some tc)
  show ?thesis
  proof (cases "tc_send_notification tc")
    case None
    with Some have "notify_block tool_call prompt = (\<lambda>st. (Inr (), st))"
      by (intro ext) (simp add: notify_block_def)
    then show ?thesis by (simp add: stateless_return)
  next
    case (Some send)
    let ?inner = "\<lambda>st1. case progress_loop send [1, 2, 3, 4] st1 of
                          (Inl e, st2) \<Rightarrow> (Inl e, st2)
                        | (Inr u', st2) \<Rightarrow>
                            await (SendNotification completed_notification)
                                  (send completed_notification) st2"
    from Some \<open>tool_call = Some tc\<close> have eq: "notify_block tool_call prompt =
      (\<lambda>st. case await (SendNotification (starting_notification prompt))
                       (send (starting_notification prompt)) st of
                (Inl e, st1) \<Rightarrow> (Inl e, st1)
              | (Inr u, st1) \<Rightarrow> ?inner st1)"
      by (intro ext) (simp add: notify_block_def Let_def del: progress_loop.simps)
    have inner: "stateless ?inner"
      by (rule stateless_seq [OF stateless_progress_loop,
            where g = "\<lambda>u'. await (SendNotification completed_notification)
                                  (send completed_notification)"])
         (rule stateless_await)
    show ?thesis unfolding eq
      by (rule stateless_seq [OF stateless_await, where g = "\<lambda>u. ?inner"]) (rule inner)
  qed
qed

lemma stateless_handle_tool_call: "stateless (handle_tool_call tool_name params tool_call)"
proof -
  consider "tool_name = ''echo''" | "tool_name = ''add''"
    | "tool_name = ''mcp_create_text_to_image_task''"
    | "tool_name \<notin> {''echo'', ''add'', ''mcp_create_text_to_image_task''}" by auto
  then show ?thesis
  proof cases
    case 1
    then have "handle_tool_call tool_name params tool_call =
      (\<lambda>st. (Inr (Atom (dict_get params ''message'' (PStr ''''))), st))"
      by (intro ext) (simp add: handle_tool_call_def)
    then show ?thesis by (simp add: stateless_return)
  next
    case 2
    then have "handle_tool_call tool_name params tool_call =
      (\<lambda>st. (case py_add (dict_get params ''a'' (PInt 0)) (dict_get params ''b'' (PInt 0)) of
                Inl e \<Rightarrow> Inl e | Inr v \<Rightarrow> Inr (Atom v), st))"
      by (intro ext) (simp add: handle_tool_call_def split: sum.splits)
    then show ?thesis by (simp add: stateless_return)
  next
    case 3
    let ?r = "case py_range (dict_get params ''num_images'' (PInt 1)) of
                     Inl e \<Rightarrow> Inl e
                   | Inr idxs \<Rightarrow>
                       Inr (image_result (dict_get params ''prompt'' (PStr ''''))
                              (dict_get params ''width'' (PInt 512))
                              (dict_get params ''height'' (PInt 512)) idxs)"
    from 3 have eq: "handle_tool_call tool_name params tool_call =
      (\<lambda>st. case notify_block tool_call (dict_get params ''prompt'' (PStr '''')) st of
                (Inl e, st1) \<Rightarrow> (Inl e, st1)
              | (Inr u, st1) \<Rightarrow> (?r, st1))"
      by (intro ext) (simp add: image_task_unfold split: sum.splits prod.splits)
    show ?thesis unfolding eq
      by (rule stateless_seq [OF stateless_notify_block, where g = "\<lambda>u st1. (?r, st1)"])
         (rule stateless_return)
  next
    case 4
    then have "handle_tool_call tool_name params tool_call =
      (\<lambda>st. (Inl (ValueError (''Unknown tool: '' @ tool_name)), st))"
      by (intro ext) (simp add: handle_tool_call_def)
    then show ?thesis by (simp add: stateless_return)
  qed
qed

text \<open>
  C7. \<open>handle_tool_call\<close> is deterministic and stateless: for every tool name, parameter
  dictionary and tool-call object, one result and one sequence of library calls (among
  them the notifications of the image task) are produced from every state; two
  evaluations with these arguments give equal results and equal sequences, whatever the
  states they start in. The dispatch writes no server state: the list of tools is left as
  it is, and the state changes only by the calls appended to the trace.
\<close>

theorem handle_tool_call_stateless:
  "(\<exists>r evs. \<forall>st. handle_tool_call tool_name params tool_call st
                    = (r, st\<lparr>trace := trace st @ evs\<rparr>)) \<and>
   fst (handle_tool_call tool_name params tool_call st1)
     = fst (handle_tool_call tool_name params tool_call st2) \<and>
   emitted st1 (snd (handle_tool_call tool_name params tool_call st1))
     = emitted st2 (snd (handle_tool_call tool_name params tool_call st2)) \<and>
   tools (snd (handle_tool_call tool_name params tool_call st1)) = tools st1"
proof -
  from stateless_handle_tool_call [of tool_name params tool_call] obtain r evs where
    h: "\<And>st. handle_tool_call tool_name params tool_call st = (r, st\<lparr>trace := trace st @ evs\<rparr>)"
    unfolding stateless_def by blast
  have 1: "\<exists>r evs. \<forall>st. handle_tool_call tool_name params tool_call st
                    = (r, st\<lparr>trace := trace st @ evs\<rparr>)"
    using h by blast
  have 2: "fst (handle_tool_call tool_name params tool_call st1)
     = fst (handle_tool_call tool_name params tool_call st2)"
    by (simp add: h)
  have 3: "emitted st1 (snd (handle_tool_call tool_name params tool_call st1))
     = emitted st2 (snd (handle_tool_call tool_name params tool_call st2))"
    by (simp add: h emitted_def)
  have 4: "tools (snd (handle_tool_call tool_name params tool_call st1)) = tools st1"
    by (simp add: h)
  from 1 2 3 4 show ?thesis by (intro conjI)
qed


section \<open>Missing parameters\<close>

lemma dict_get_missing: "params k = None \<Longrightarrow> dict_get params k d = d"
  by (simp add: dict_get_def)

lemma add_default_a:
  assumes "params ''a'' = None"
  shows "handle_tool_call ''add'' params tool_call st
           = handle_tool_call ''add'' (params(''a'' \<mapsto> PInt 0)) tool_call st"
  using assms by (simp add: handle_tool_call_def dict_get_def)

lemma add_default_b:
  assumes "params ''b'' = None"
  shows "handle_tool_call ''add'' params tool_call st
           = handle_tool_call ''add'' (params(''b'' \<mapsto> PInt 0)) tool_call st"
  using assms by (simp add: handle_tool_call_def dict_get_def)

lemma dict_get_upd:
  "dict_get (params(k \<mapsto> d)) k' d' = (if k' = k then d else dict_get params k' d')"
  by (simp add: dict_get_def)

lemma image_task_same_gets:
  assumes "dict_get p ''prompt'' (PStr []) = dict_get q ''prompt'' (PStr [])"
      and "dict_get p ''width'' (PInt 512) = dict_get q ''width'' (PInt 512)"
      and "dict_get p ''height'' (PInt 512) = dict_get q ''height'' (PInt 512)"
      and "dict_get p ''num_images'' (PInt 1) = dict_get q ''num_images'' (PInt 1)"
  shows "handle_tool_call ''mcp_create_text_to_image_task'' p tool_call st
           = handle_tool_call ''mcp_create_text_to_image_task'' q tool_call st"
  unfolding image_task_unfold assms ..

lemma image_default:
  assumes "params k = None"
      and "(k, d) \<in> {(''prompt'', PStr []), (''width'', PInt 512), (''height'', PInt 512),
                      (''num_images'', PInt 1)}"
  shows "handle_tool_call ''mcp_create_text_to_image_task'' params tool_call st
           = handle_tool_call ''mcp_create_text_to_image_task'' (params(k \<mapsto> d)) tool_call st"
  using assms
  by (intro image_task_same_gets) (auto simp: dict_get_upd dict_get_missing)

lemma well_typed_number:
  assumes "has_type ''number'' v"
  shows "\<exists>i. v = PInt i"
  using assms by (cases v) (simp_all add: has_type_def)

lemma get_number:
  assumes "typed_if_present ''number'' (params k)"
  shows "\<exists>i. dict_get params k (PInt d) = PInt i"
  using assms by (cases "params k") (auto simp: dict_get_def dest: well_typed_number)

lemma tools_cases:
  assumes "tool \<in> set TOOLS" and "well_typed_where_present tool params"
  shows "td_name tool = ''echo'' \<or>
         (td_name tool = ''add'' \<and>
          typed_if_present ''number'' (params ''a'') \<and>
          typed_if_present ''number'' (params ''b'')) \<or>
         (td_name tool = ''mcp_create_text_to_image_task'' \<and>
          typed_if_present ''number'' (params ''num_images''))"
  using assms by (auto simp: TOOLS_def well_typed_where_present_def)

lemma known_tool_returns:
  assumes "tool \<in> set TOOLS"
      and "well_typed_where_present tool params"
      and "sends_return_normally tool_call"
  shows "\<exists>v. fst (handle_tool_call (td_name tool) params tool_call st) = Inr v"
proof -
  from tools_cases [OF assms(1,2)] consider
      (echo) "td_name tool = ''echo''"
    | (add) "td_name tool = ''add''"
        "typed_if_present ''number'' (params ''a'')"
        "typed_if_present ''number'' (params ''b'')"
    | (image) "td_name tool = ''mcp_create_text_to_image_task''"
        "typed_if_present ''number'' (params ''num_images'')"
    by blast
  then show ?thesis
  proof cases
    case echo
    then show ?thesis by (simp add: handle_tool_call_def)
  next
    case add
    from get_number [of params "''a''" 0, OF add(2)] obtain i where a: "dict_get params ''a'' (PInt 0) = PInt i" ..
    from get_number [of params "''b''" 0, OF add(3)] obtain j where b: "dict_get params ''b'' (PInt 0) = PInt j" ..
    from add(1) a b show ?thesis by (simp add: handle_tool_call_def py_add_def)
  next
    case image
    from get_number [of params "''num_images''" 1, OF image(2)] obtain i where
      n: "dict_get params ''num_images'' (PInt 1) = PInt i" ..
    from image(1) n image_task_normal [OF assms(3), of params st] show ?thesis
      by (simp add: py_range_def)
  qed
qed

text \<open>
  C8. Every parameter of the declared tool schemas is marked required, yet
  \<open>handle_tool_call\<close> never fails because a parameter is missing: "echo" without a
  "message" returns the empty string, "add" treats a missing "a" or "b" as 0, and
  "mcp_create_text_to_image_task" takes "" for a missing prompt, 512 for a missing width
  or height and 1 for a missing \<^verbatim>\<open>num_images\<close>. For every declared tool, when the
  parameters that are present have their declared types, whichever of them are missing,
  and the sends of the notification channel (if there is one) return normally, the call
  returns a value.
\<close>

theorem missing_parameters_defaulted:
  "(params ''message'' = None \<longrightarrow>
      handle_tool_call ''echo'' params tool_call st = (Inr (Atom (PStr '''')), st)) \<and>
   (params ''a'' = None \<longrightarrow>
      handle_tool_call ''add'' params tool_call st
        = handle_tool_call ''add'' (params(''a'' \<mapsto> PInt 0)) tool_call st) \<and>
   (params ''b'' = None \<longrightarrow>
      handle_tool_call ''add'' params tool_call st
        = handle_tool_call ''add'' (params(''b'' \<mapsto> PInt 0)) tool_call st) \<and>
   (params ''prompt'' = None \<longrightarrow>
      handle_tool_call ''mcp_create_text_to_image_task'' params tool_call st
        = handle_tool_call ''mcp_create_text_to_image_task''
            (params(''prompt'' \<mapsto> PStr '''')) tool_call st) \<and>
   (params ''width'' = None \<longrightarrow>
      handle_tool_call ''mcp_create_text_to_image_task'' params tool_call st
        = handle_tool_call ''mcp_create_text_to_image_task''
            (params(''width'' \<mapsto> PInt 512)) tool_call st) \<and>
   (params ''height'' = None \<longrightarrow>
      handle_tool_call ''mcp_create_text_to_image_task'' params tool_call st
        = handle_tool_call ''mcp_create_text_to_image_task''
            (params(''height'' \<mapsto> PInt 512)) tool_call st) \<and>
   (params ''num_images'' = None \<longrightarrow>
      handle_tool_call ''mcp_create_text_to_image_task'' params tool_call st
        = handle_tool_call ''mcp_create_text_to_image_task''
            (params(''num_images'' \<mapsto> PInt 1)) tool_call st) \<and>
   (tool \<in> set TOOLS \<and> well_typed_where_present tool params \<and> sends_return_normally tool_call
      \<longrightarrow> (\<exists>v. fst (handle_tool_call (td_name tool) params tool_call st) = Inr v)) \<and>
   list_all (\<lambda>t. list_all pd_required (td_parameters t)) TOOLS"
proof (intro conjI impI)
  show "list_all (\<lambda>t. list_all pd_required (td_parameters t)) TOOLS"
    by (simp add: TOOLS_def)
qed (simp_all add: add_default_a add_default_b image_default known_tool_returns
       handle_tool_call_def [of "''echo''"] dict_get_def [of _ "''message''"])

theorem missing_parameters_defaulted_witness:
  "handle_tool_call ''echo'' Map.empty None init_state = (Inr (Atom (PStr '''')), init_state) \<and>
   handle_tool_call ''add'' [''b'' \<mapsto> PInt 3] None init_state = (Inr (Atom (PInt 3)), init_state) \<and>
   handle_tool_call ''add'' [''a'' \<mapsto> PInt 2] None init_state = (Inr (Atom (PInt 2)), init_state) \<and>
   handle_tool_call ''mcp_create_text_to_image_task'' Map.empty None init_state
     = (Inr (PDict
          [(''images'', PList
              [PDict [(''url'', Atom (PStr ''https://example.com/images/generated_0.png'')),
                      (''width'', Atom (PInt 512)), (''height'', Atom (PInt 512))]]),
           (''prompt'', Atom (PStr ''''))]), init_state)"
proof -
  note m = missing_parameters_defaulted
  have e: "handle_tool_call ''echo'' Map.empty None init_state
             = (Inr (Atom (PStr [])), init_state)"
    using m [of Map.empty None init_state, THEN conjunct1] by simp
  have "handle_tool_call ''add'' [''b'' \<mapsto> PInt 3] None init_state
          = handle_tool_call ''add'' ([''b'' \<mapsto> PInt 3](''a'' \<mapsto> PInt 0)) None init_state"
    using m [of "[''b'' \<mapsto> PInt 3]" None init_state, THEN conjunct2, THEN conjunct1] by simp
  then have a: "handle_tool_call ''add'' [''b'' \<mapsto> PInt 3] None init_state
          = (Inr (Atom (PInt 3)), init_state)"
    by (simp add: handle_tool_call_def dict_get_def py_add_def)
  have "handle_tool_call ''add'' [''a'' \<mapsto> PInt 2] None init_state
          = handle_tool_call ''add'' ([''a'' \<mapsto> PInt 2](''b'' \<mapsto> PInt 0)) None init_state"
    using m [of "[''a'' \<mapsto> PInt 2]" None init_state, THEN conjunct2, THEN conjunct2,
             THEN conjunct1] by simp
  then have b: "handle_tool_call ''add'' [''a'' \<mapsto> PInt 2] None init_state
          = (Inr (Atom (PInt 2)), init_state)"
    by (simp add: handle_tool_call_def dict_get_def py_add_def)
  have "handle_tool_call ''mcp_create_text_to_image_task'' Map.empty None init_state
          = handle_tool_call ''mcp_create_text_to_image_task'' [''num_images'' \<mapsto> PInt 1]
              None init_state"
    using m [of Map.empty None init_state, THEN conjunct2, THEN conjunct2, THEN conjunct2,
             THEN conjunct2, THEN conjunct2, THEN conjunct2, THEN conjunct1] by simp
  then have i: "handle_tool_call ''mcp_create_text_to_image_task'' Map.empty None init_state
     = (Inr (PDict
          [(''images'', PList
              [PDict [(''url'', Atom (PStr ''https://example.com/images/generated_0.png'')),
                      (''width'', Atom (PInt 512)), (''height'', Atom (PInt 512))]]),
           (''prompt'', Atom (PStr []))]), init_state)"
    by (simp add: image_task_unfold notify_block_def dict_get_def py_range_def image_result_def
          image_entry_def int_str_small)
  from e a b i show ?thesis by (intro conjI)
qed


section \<open>The list of tools\<close>

lemma handle_tool_call_extends:
  "\<exists>evs. snd (handle_tool_call tool_name params tool_call st) = st\<lparr>trace := trace st @ evs\<rparr>"
proof -
  from stateless_handle_tool_call [of tool_name params tool_call] obtain r evs where
    "\<And>st. handle_tool_call tool_name params tool_call st = (r, st\<lparr>trace := trace st @ evs\<rparr>)"
    unfolding stateless_def by blast
  then have "snd (handle_tool_call tool_name params tool_call st) = st\<lparr>trace := trace st @ evs\<rparr>"
    by simp
  then show ?thesis ..
qed

lemma await_tools: "tools (snd (await ev outcome st)) = tools st"
  by (simp add: await_def)

lemma handle_tool_call_tools:
  "tools (snd (handle_tool_call tool_name params tool_call st)) = tools st"
proof -
  from handle_tool_call_extends [of tool_name params tool_call st] obtain evs where
    "snd (handle_tool_call tool_name params tool_call st) = st\<lparr>trace := trace st @ evs\<rparr>" ..
  then show ?thesis by simp
qed

lemma try_body_tools: "tools (snd (try_body tc st)) = tools st"
proof (cases "handle_tool_call (tc_name tc) (tc_parameters tc) (Some tc) st")
  case (Pair r st1)
  then have "tools st1 = tools st"
    using handle_tool_call_tools [of "tc_name tc" "tc_parameters tc" "Some tc" st] by simp
  with Pair show ?thesis
    by (cases r) (simp_all add: try_body_def await_tools)
qed

lemma process_tool_call_tools: "tools (snd (process_tool_call tc st)) = tools st"
proof (cases "try_body tc st")
  case (Pair r st1)
  then have "tools st1 = tools st" using try_body_tools [of tc st] by simp
  with Pair show ?thesis
    by (cases r) (simp_all add: process_tool_call_def await_tools)
qed

lemma tool_call_loop_tools: "tools (snd (tool_call_loop tcs st)) = tools st"
proof (induction tcs arbitrary: st)
  case Nil
  show ?case by simp
next
  case (Cons tc rest)
  show ?case
  proof (cases "process_tool_call tc st")
    case (Pair r st1)
    then have t: "tools st1 = tools st" using process_tool_call_tools [of tc st] by simp
    show ?thesis
    proof (cases r)
      case (Inl e)
      with Pair t show ?thesis by simp
    next
      case (Inr u)
      with Pair t Cons.IH [of st1] show ?thesis by simp
    qed
  qed
qed

lemma handle_session_tools: "tools (snd (handle_session sess st)) = tools st"
  by (simp add: handle_session_def await_def tool_call_loop_tools
           split: option.splits)

text \<open>
  C6. \<open>TOOLS\<close> is a static configuration value of exactly three tool descriptors, named
  "echo", "add" and "mcp_create_text_to_image_task"; every descriptor carries a name, a
  parameter list whose entries each have a name, a type and a required flag, and a result
  type. The list is what the module holds when it is loaded, and no operation of the
  server changes it: neither \<open>handle_tool_call\<close> nor \<open>handle_session\<close>.
\<close>

theorem tools_static:
  "length TOOLS = 3 \<and>
   map td_name TOOLS = [''echo'', ''add'', ''mcp_create_text_to_image_task''] \<and>
   map (\<lambda>t. map (\<lambda>p. (pd_name p, pd_type p, pd_required p)) (td_parameters t)) TOOLS =
     [[(''message'', ''string'', True)],
      [(''a'', ''number'', True), (''b'', ''number'', True)],
      [(''prompt'', ''string'', True), (''width'', ''number'', True),
       (''height'', ''number'', True), (''num_images'', ''number'', True)]] \<and>
   map (\<lambda>t. rd_type (td_result t)) TOOLS = [''string'', ''number'', ''object''] \<and>
   tools init_state = TOOLS \<and>
   tools (snd (handle_tool_call tool_name params tool_call st)) = tools st \<and>
   tools (snd (handle_session sess st)) = tools st"
  by (simp add: handle_tool_call_tools handle_session_tools)
     (simp add: TOOLS_def init_state_def)


section \<open>Reporting the outcome of a tool call\<close>









end
